theory Spec2Isabelle
  imports Main "HOL-Library.Sublist"
begin

section \<open>Python values\<close>

text \<open>
  Python text is a \<open>string\<close>: the bytes of its UTF-8 encoding. Every marker, header
  name and separator of the program is ASCII, and an ASCII byte never occurs inside the
  encoding of another code point, so \<open>split\<close>, \<open>replace\<close> and the comparisons of
  the source act on the bytes as they act on the code points.

  A value decoded from JSON, and any value a caller passes as a keyword argument, is a
  \<open>json\<close>. A float stands by its Python \<open>repr\<close>, the only thing the program
  observes of it besides its truth value. A dict is an association list in insertion
  order with distinct keys.
\<close>

datatype json =
    JNull
  | JBool bool
  | JInt int
  | JFloat string
  | JStr string
  | JArr "json list"
  | JObj "(string \<times> json) list"

type_synonym dict = "(string \<times> json) list"

text \<open>\<open>d.get(k)\<close>: the value under \<open>k\<close>, \<open>None\<close> when the key is absent.\<close>

definition dict_get :: "dict \<Rightarrow> string \<Rightarrow> json" where
  "dict_get d k = (case map_of d k of None \<Rightarrow> JNull | Some v \<Rightarrow> v)"

text \<open>\<open>k in d\<close>.\<close>

definition dict_has :: "('k \<times> 'v) list \<Rightarrow> 'k \<Rightarrow> bool" where
  "dict_has d k = (map_of d k \<noteq> None)"

text \<open>
  \<open>d[k] = v\<close>: an existing key keeps its place and takes the new value, a new key goes
  to the end.
\<close>

fun dict_set :: "('k \<times> 'v) list \<Rightarrow> 'k \<Rightarrow> 'v \<Rightarrow> ('k \<times> 'v) list" where
  "dict_set [] k v = [(k, v)]"
| "dict_set ((k', v') # d) k v =
     (if k' = k then (k, v) # d else (k', v') # dict_set d k v)"

text \<open>\<open>{**a, **b}\<close>: the entries of \<open>b\<close> stored into \<open>a\<close> one by one.\<close>

definition dict_merge :: "('k \<times> 'v) list \<Rightarrow> ('k \<times> 'v) list \<Rightarrow> ('k \<times> 'v) list" where
  "dict_merge a b = foldl (\<lambda>d (k, v). dict_set d k v) a b"

text \<open>\<open>del d[k]\<close>, for a key the dict holds.\<close>

definition dict_del :: "('k \<times> 'v) list \<Rightarrow> 'k \<Rightarrow> ('k \<times> 'v) list" where
  "dict_del d k = filter (\<lambda>kv. fst kv \<noteq> k) d"

text \<open>Truth value of a value in a condition (\<open>if x\<close>, \<open>x or y\<close>, \<open>not x\<close>).\<close>

fun truthy :: "json \<Rightarrow> bool" where
  "truthy JNull = False"
| "truthy (JBool b) = b"
| "truthy (JInt i) = (i \<noteq> 0)"
| "truthy (JFloat r) = (r \<noteq> ''0.0'' \<and> r \<noteq> ''-0.0'')"
| "truthy (JStr s) = (s \<noteq> [])"
| "truthy (JArr xs) = (xs \<noteq> [])"
| "truthy (JObj d) = (d \<noteq> [])"

text \<open>\<open>x or y\<close>.\<close>

definition py_or :: "json \<Rightarrow> json \<Rightarrow> json" where
  "py_or x y = (if truthy x then x else y)"

text \<open>An optional text argument (\<open>proxy: str = None\<close>) in a condition.\<close>

fun truthy_opt :: "string option \<Rightarrow> bool" where
  "truthy_opt None = False"
| "truthy_opt (Some s) = (s \<noteq> [])"

fun type_name :: "json \<Rightarrow> string" where
  "type_name JNull = ''NoneType''"
| "type_name (JBool b) = ''bool''"
| "type_name (JInt i) = ''int''"
| "type_name (JFloat r) = ''float''"
| "type_name (JStr s) = ''str''"
| "type_name (JArr xs) = ''list''"
| "type_name (JObj d) = ''dict''"

text \<open>Decimal text of an integer, as \<open>str\<close> and \<open>%d\<close> print it.\<close>

fun digits :: "nat \<Rightarrow> string" where
  "digits n = (if n < 10 then [''0123456789'' ! n]
               else digits (n div 10) @ [''0123456789'' ! (n mod 10)])"

declare digits.simps [simp del]

definition show_int :: "int \<Rightarrow> string" where
  "show_int i = (if i < 0 then CHR ''-'' # digits (nat (- i)) else digits (nat i))"

text \<open>
  A text is held as its bytes in UTF-8, a lone surrogate (which a Python \<open>str\<close> may
  hold) as the three bytes of its code point. \<open>valid_utf8\<close> says that bytes are
  well-formed UTF-8: no overlong form, no surrogate, nothing above \<open>U+10FFFF\<close>. These
  are the bytes that \<open>bytes.decode("utf-8")\<close> accepts, the decoded text being the
  bytes themselves, and the texts that \<open>str.encode("utf-8")\<close> accepts.
\<close>

definition in_range :: "nat \<Rightarrow> nat \<Rightarrow> char \<Rightarrow> bool" where
  "in_range lo hi c = (lo \<le> of_char c \<and> (of_char c :: nat) \<le> hi)"

fun valid_utf8 :: "string \<Rightarrow> bool" where
  "valid_utf8 [] = True"
| "valid_utf8 (a # tail) =
     (if in_range 0 0x7F a then valid_utf8 tail
      else if in_range 0xC2 0xDF a then
        (case tail of
           b # r \<Rightarrow> in_range 0x80 0xBF b \<and> valid_utf8 r
         | _ \<Rightarrow> False)
      else if in_range 0xE0 0xEF a then
        (case tail of
           b # c # r \<Rightarrow>
             in_range (if a = char_of (0xE0 :: nat) then 0xA0 else 0x80)
                      (if a = char_of (0xED :: nat) then 0x9F else 0xBF) b
             \<and> in_range 0x80 0xBF c \<and> valid_utf8 r
         | _ \<Rightarrow> False)
      else if in_range 0xF0 0xF4 a then
        (case tail of
           b # c # d # r \<Rightarrow>
             in_range (if a = char_of (0xF0 :: nat) then 0x90 else 0x80)
                      (if a = char_of (0xF4 :: nat) then 0x8F else 0xBF) b
             \<and> in_range 0x80 0xBF c \<and> in_range 0x80 0xBF d \<and> valid_utf8 r
         | _ \<Rightarrow> False)
      else False)"

subsection \<open>The runtime library\<close>

text \<open>
  The program calls into Python's standard library for text it does not inspect itself.
  These calls are parameters of the model, so every theorem holds whatever the library
  computes:
  \<^item> \<open>str_strip\<close>: \<open>s.strip()\<close>;
  \<^item> \<open>repr_of\<close>: \<open>repr(v)\<close>, used for a list and a dict only;
  \<^item> \<open>re_search\<close>: \<open>re.search(pattern, text, flags)\<close> with the flag
    \<open>re.IGNORECASE\<close> given as a boolean; the result is \<open>group(1)\<close> of the
    leftmost match, \<open>None\<close> when nothing matches;
  \<^item> \<open>urlparse\<close>: the \<open>scheme\<close>, \<open>netloc\<close> and \<open>path\<close> of a URL;
  \<^item> \<open>urljoin\<close>;
  \<^item> \<open>json_loads\<close>: \<open>json.loads\<close>, \<open>None\<close> when it raises;
  \<^item> \<open>os_sleep_refused\<close>: whether the operating system refuses to sleep for a
    number of seconds that the interpreter has accepted (on Linux the deadline, the
    monotonic clock plus the length, must fit the clock).
\<close>

record pylib =
  str_strip :: "string \<Rightarrow> string"
  repr_of :: "json \<Rightarrow> string"
  re_search :: "string \<Rightarrow> bool \<Rightarrow> string \<Rightarrow> string option"
  urlparse :: "string \<Rightarrow> string \<times> string \<times> string"
  urljoin :: "string \<Rightarrow> string \<Rightarrow> string"
  json_loads :: "string \<Rightarrow> json option"
  os_sleep_refused :: "int \<Rightarrow> bool"

text \<open>\<open>str(v)\<close>, which is also how an f-string prints \<open>v\<close>.\<close>

fun py_str :: "pylib \<Rightarrow> json \<Rightarrow> string" where
  "py_str L JNull = ''None''"
| "py_str L (JBool b) = (if b then ''True'' else ''False'')"
| "py_str L (JInt i) = show_int i"
| "py_str L (JFloat r) = r"
| "py_str L (JStr s) = s"
| "py_str L (JArr xs) = repr_of L (JArr xs)"
| "py_str L (JObj d) = repr_of L (JObj d)"

section \<open>Errors and outcomes\<close>

text \<open>
  Each exception class the program raises or lets through is a constructor. A call either
  returns, raises, or is still waiting for the remote side (\<open>Blocked\<close>): it has sent a
  request and no response has arrived.
\<close>

datatype error =
    APIError json
  | MissingAPIKeyError string
  | RuntimeError string
  | AttributeError string string
  | ValueError string
  | OverflowError string
  | OSError string
  | UnicodeEncodeError

datatype 'a outcome = Returned 'a | Raised error | Blocked

section \<open>The transport\<close>

text \<open>
  The HTTP library is outside the program. A request is the arguments
  \<open>session.get\<close> or \<open>session.post\<close> receives; a response is the attributes the
  program reads from it (\<open>resp_json\<close> is what \<open>resp.json()\<close> returns, \<open>None\<close>
  when it raises \<open>ValueError\<close>). The remote side is a script of exchanges, each a
  response and the session's cookie jar once the response has been processed. The world
  is the session's headers and cookies, the exchanges still to come, and the log of what
  the program did: every request with the session state it was sent with, and every sleep.
\<close>

type_synonym jar = "(string \<times> string) list"
type_synonym header_dict = "(string \<times> string) list"

text \<open>\<open>cookies.get(name)\<close>.\<close>

definition cookie_get :: "jar \<Rightarrow> string \<Rightarrow> string option" where
  "cookie_get j n = map_of j n"

record request =
  rq_method :: string
  rq_url :: string
  rq_headers :: "header_dict option"
  rq_json :: "json option"
  rq_proxies :: "string option"
  rq_verify :: "bool option"
  rq_impersonate :: string

record response =
  status_code :: int
  resp_text :: string
  resp_cookies :: jar
  resp_json :: "json option"

record exchange =
  reply :: response
  jar_after :: jar

datatype event = Sent header_dict jar request | Slept int

record world =
  sess_headers :: header_dict
  sess_cookies :: jar
  pending :: "exchange list"
  history :: "event list"

definition session_request :: "request \<Rightarrow> world \<Rightarrow> response outcome \<times> world" where
  "session_request rq w =
     (let w1 = w\<lparr>history := history w @ [Sent (sess_headers w) (sess_cookies w) rq]\<rparr>
      in case pending w of
           [] \<Rightarrow> (Blocked, w1)
         | e # es \<Rightarrow> (Returned (reply e), w1\<lparr>pending := es, sess_cookies := jar_after e\<rparr>))"



section \<open>client.py\<close>

record client =
  api_key :: string
  base_url :: string
  impersonate :: string

definition key_missing :: "pylib \<Rightarrow> string \<Rightarrow> bool" where
  "key_missing L k = (k = [] \<or> str_strip L k = [])"

definition Client_init :: "pylib \<Rightarrow> string \<Rightarrow> string \<Rightarrow> string \<Rightarrow> error + client" where
  "Client_init L k b i =
     (if key_missing L k
      then Inl (MissingAPIKeyError ''API key is required. Pass it when creating the client.'')
      else Inr \<lparr>api_key = k, base_url = b, impersonate = i\<rparr>)"

text \<open>
  \<open>Client._post\<close>. \<open>api_request\<close> is the call
  \<open>session.post(url, json=body, impersonate=..., proxies=...)\<close> it makes.
\<close>

definition api_request :: "client \<Rightarrow> string \<Rightarrow> dict \<Rightarrow> string option \<Rightarrow> request" where
  "api_request c u payload proxy =
     \<lparr>rq_method = ''POST'', rq_url = u, rq_headers = None,
      rq_json = Some (JObj (dict_merge [(''api_key'', JStr (api_key c))] payload)),
      rq_proxies = (if truthy_opt proxy then proxy else None),
      rq_verify = None, rq_impersonate = impersonate c\<rparr>"

definition Client_post_api ::
  "pylib \<Rightarrow> client \<Rightarrow> string \<Rightarrow> dict \<Rightarrow> string option \<Rightarrow> world \<Rightarrow> json outcome \<times> world" where
  "Client_post_api L c u payload proxy w =
     (if key_missing L (api_key c) then (Raised (MissingAPIKeyError ''API key is required''), w)
      else
        case session_request (api_request c u payload proxy) w of
          (Blocked, w1) \<Rightarrow> (Blocked, w1)
        | (Raised e, w1) \<Rightarrow> (Raised e, w1)
        | (Returned resp, w1) \<Rightarrow>
            (case resp_json resp of
               None \<Rightarrow>
                 (Raised (APIError (JStr (''Invalid response from API (''
                             @ show_int (status_code resp) @ '')''))), w1)
             | Some data \<Rightarrow>
                 if status_code resp \<ge> 400 then
                   (case data of
                      JObj d \<Rightarrow>
                        (Raised (APIError
                           (py_or (py_or (dict_get d ''error_description'')
                                         (dict_get d ''error''))
                                  (JStr ''Request failed''))), w1)
                    | _ \<Rightarrow> (Raised (AttributeError (type_name data) ''get''), w1))
                 else (Returned data, w1)))"

text \<open>
  \<open>Client.get\<close> and \<open>Client.post\<close>: \<open>get_request\<close> and
  \<open>post_request\<close> are the keyword arguments they hand to the session. The callers in
  this program pass \<open>verify\<close> and \<open>impersonate\<close> as extra keyword arguments; an
  \<open>impersonate\<close> given so replaces the client's own. A \<open>data\<close> argument is never
  passed and is left out.
\<close>

definition get_request ::
  "client \<Rightarrow> string \<Rightarrow> string option \<Rightarrow> header_dict option \<Rightarrow> bool option \<Rightarrow> string option
     \<Rightarrow> request" where
  "get_request c u proxy hs vfy imp =
     \<lparr>rq_method = ''GET'', rq_url = u,
      rq_headers = (case hs of Some h \<Rightarrow> (if h \<noteq> [] then Some h else None) | None \<Rightarrow> None),
      rq_json = None,
      rq_proxies = (if truthy_opt proxy then proxy else None),
      rq_verify = vfy,
      rq_impersonate = (case imp of Some i \<Rightarrow> i | None \<Rightarrow> impersonate c)\<rparr>"

definition Client_get ::
  "client \<Rightarrow> string \<Rightarrow> string option \<Rightarrow> header_dict option \<Rightarrow> bool option \<Rightarrow> string option
     \<Rightarrow> world \<Rightarrow> response outcome \<times> world" where
  "Client_get c u proxy hs vfy imp w = session_request (get_request c u proxy hs vfy imp) w"



section \<open>tasks.py\<close>

definition create_url :: string where
  "create_url = ''https://salamoonder.com/api/createTask''"


text \<open>
  \<open>Tasks.createTask\<close>, the statements that fill \<open>task\<close> from the keyword
  arguments: \<open>kwargs.get(k)\<close> is \<open>dict_get kwargs k\<close>.
\<close>

definition opt_user_agent :: "dict \<Rightarrow> dict \<Rightarrow> dict" where
  "opt_user_agent kwargs task =
     (if dict_has kwargs ''user_agent''
      then dict_set task ''user_agent'' (dict_get kwargs ''user_agent'') else task)"

definition createTask_task :: "string \<Rightarrow> dict \<Rightarrow> dict" where
  "createTask_task task_type kwargs =
     (let task = [(''type'', JStr task_type)] in
      if task_type = ''KasadaCaptchaSolver'' then
        (let task = dict_set task ''pjs'' (dict_get kwargs ''pjs_url'');
             task = dict_set task ''cdOnly'' (dict_get kwargs ''cd_only'')
         in task)
      else if task_type = ''Twitch_PublicIntegrity'' then
        (let task = dict_set task ''access_token'' (dict_get kwargs ''access_token'');
             task = dict_set task ''proxy'' (dict_get kwargs ''proxy'');
             task = (if dict_has kwargs ''device_id''
                     then dict_set task ''device_id'' (dict_get kwargs ''device_id'') else task);
             task = (if dict_has kwargs ''client_id''
                     then dict_set task ''client_id'' (dict_get kwargs ''client_id'') else task)
         in task)
      else if task_type = ''IncapsulaReese84Solver'' then
        (let task = dict_set task ''type'' (JStr ''IncapsulaReese84Solver'');
             task = dict_set task ''website'' (dict_get kwargs ''website'');
             task = dict_set task ''submit_payload'' (dict_get kwargs ''submit_payload'');
             task = opt_user_agent kwargs task
         in task)
      else if task_type = ''IncapsulaUTMVCSolver'' then
        (let task = dict_set task ''type'' (JStr ''IncapsulaUTMVCSolver'');
             task = dict_set task ''website'' (dict_get kwargs ''website'');
             task = opt_user_agent kwargs task
         in task)
      else if task_type = ''AkamaiWebSensorSolver'' then
        (let task = dict_set task ''type'' (JStr ''AkamaiWebSensorSolver'');
             task = dict_set task ''url'' (dict_get kwargs ''url'');
             task = dict_set task ''abck'' (dict_get kwargs ''abck'');
             task = dict_set task ''bmsz'' (dict_get kwargs ''bmsz'');
             task = dict_set task ''script'' (dict_get kwargs ''script'');
             task = dict_set task ''sensor_url'' (dict_get kwargs ''sensor_url'');
             task = dict_set task ''count'' (dict_get kwargs ''count'');
             task = dict_set task ''data'' (dict_get kwargs ''data'');
             task = opt_user_agent kwargs task
         in task)
      else if task_type = ''AkamaiSBSDSolver'' then
        (let task = dict_set task ''type'' (JStr ''AkamaiSBSDSolver'');
             task = dict_set task ''url'' (dict_get kwargs ''url'');
             task = dict_set task ''cookie'' (dict_get kwargs ''cookie'');
             task = dict_set task ''sbsd_url'' (dict_get kwargs ''sbsd_url'');
             task = dict_set task ''script'' (dict_get kwargs ''script'');
             task = opt_user_agent kwargs task
         in task)
      else if task_type = ''DataDomeSliderSolver'' then
        (let task = dict_set task ''type'' (JStr ''DataDomeSliderSolver'');
             task = dict_set task ''captcha_url'' (dict_get kwargs ''captcha_url'');
             task = opt_user_agent kwargs task;
             task = dict_set task ''country_code'' (dict_get kwargs ''country_code'')
         in task)
      else if task_type = ''DataDomeInterstitialSolver'' then
        (let task = dict_set task ''type'' (JStr ''DataDomeInterstitialSolver'');
             task = dict_set task ''captcha_url'' (dict_get kwargs ''captcha_url'');
             task = opt_user_agent kwargs task;
             task = dict_set task ''country_code'' (dict_get kwargs ''country_code'')
         in task)
      else task)"

definition createTask ::
  "pylib \<Rightarrow> client \<Rightarrow> string \<Rightarrow> dict \<Rightarrow> world \<Rightarrow> json outcome \<times> world" where
  "createTask L c task_type kwargs w =
     (case Client_post_api L c create_url [(''task'', JObj (createTask_task task_type kwargs))]
             None w of
        (Blocked, w1) \<Rightarrow> (Blocked, w1)
      | (Raised e, w1) \<Rightarrow> (Raised e, w1)
      | (Returned data, w1) \<Rightarrow>
          (case data of
             JObj d \<Rightarrow> (Returned (dict_get d ''taskId''), w1)
           | _ \<Rightarrow> (Raised (AttributeError (type_name data) ''get''), w1)))"






subsection \<open>What the caller observes\<close>

text \<open>
  The actions of a call are the requests and sleeps it added to the history, without
  the session state they were made in.
\<close>

datatype action = Request request | Sleep int

fun action_of :: "event \<Rightarrow> action" where
  "action_of (Sent h j r) = Request r"
| "action_of (Slept i) = Sleep i"

definition new_actions :: "world \<Rightarrow> world \<Rightarrow> action list" where
  "new_actions w w' = map action_of (drop (length (history w)) (history w'))"

text \<open>
  A task result is a response that \<open>_post\<close> hands to its caller as a dict: its HTTP
  status is below 400 and its body parses to a JSON object.
\<close>

definition task_result :: "exchange \<Rightarrow> dict option" where
  "task_result e =
     (if status_code (reply e) < 400
      then (case resp_json (reply e) of Some (JObj d) \<Rightarrow> Some d | _ \<Rightarrow> None)
      else None)"




section \<open>utils/akamai.py\<close>

text \<open>
  The regular expressions of the module, as the texts handed to \<open>re.search\<close>:
  \<^verbatim>\<open>Chrome/(\d+)\<close>,
  \<^verbatim>\<open><script type="text/javascript".*?src="((/[0-9A-Za-z\-\_]+)+)">\<close> and
  \<^verbatim>\<open><script[^>]+src=["\']([^"\']*/\.well-known/sbsd/[^"\']+)["\']\<close>.
  A backslash is written \<open>bs\<close>.
\<close>

abbreviation bs :: char where
  "bs \<equiv> CHR 0x5C"

definition chrome_pattern :: string where
  \<open>chrome_pattern = ''Chrome/('' @ bs # ''d+)''\<close>

definition akamai_pattern :: string where
  \<open>akamai_pattern =
     ''<script type="text/javascript".*?src="((/[0-9A-Za-z'' @ bs # ''-'' @ bs # ''_]+)+)">''\<close>

definition sbsd_pattern :: string where
  \<open>sbsd_pattern =
     ''<script[^>]+src=["'' @ bs # ''\']([^"'' @ bs # ''\']*/'' @ bs
       # ''.well-known/sbsd/[^"'' @ bs # ''\']+)["'' @ bs # ''\']''\<close>

text \<open>\<open>_extract_sec_ch_ua\<close>, the same in both classes.\<close>

definition extract_sec_ch_ua :: "pylib \<Rightarrow> string \<Rightarrow> string" where
  \<open>extract_sec_ch_ua L user_agent =
     (case re_search L chrome_pattern False user_agent of
        Some version \<Rightarrow>
          ''"Chromium";v="'' @ version @ ''", "Google Chrome";v="'' @ version
            @ ''", "Not?A_Brand";v="99"''
      | None \<Rightarrow> ''"Chromium";v="122", "Google Chrome";v="122", "Not?A_Brand";v="99"'')\<close>

text \<open>
  \<open>base_url = f"{parsed.scheme}://{parsed.netloc}"\<close>, which three functions compute.
\<close>

definition origin_of :: "pylib \<Rightarrow> string \<Rightarrow> string" where
  "origin_of L u = (case urlparse L u of (scheme, netloc, path) \<Rightarrow> scheme @ ''://'' @ netloc)"

text \<open>
  \<open>AkamaiWeb._get_akamai_url\<close>: the pair \<open>(base_url, akamai_url)\<close>, or
  \<open>None\<close> for \<open>(None, None)\<close>.
\<close>

definition get_akamai_url :: "pylib \<Rightarrow> string \<Rightarrow> string \<Rightarrow> (string \<times> string) option" where
  "get_akamai_url L html website_url =
     (case re_search L akamai_pattern False html of
        None \<Rightarrow> None
      | Some akamai_url_path \<Rightarrow>
          if akamai_url_path = [] then None
          else Some (origin_of L website_url, urljoin L (origin_of L website_url) akamai_url_path))"

text \<open>The headers of the first request and the statements that turn them into those of
  the script request.\<close>

definition document_headers :: "pylib \<Rightarrow> string \<Rightarrow> string \<Rightarrow> header_dict" where
  \<open>document_headers L user_agent accept =
     [(''sec-ch-ua'', extract_sec_ch_ua L user_agent),
      (''sec-ch-ua-mobile'', ''?0''),
      (''sec-ch-ua-platform'', ''"Windows"''),
      (''upgrade-insecure-requests'', ''1''),
      (''user-agent'', user_agent),
      (''accept'', accept),
      (''sec-fetch-site'', ''none''),
      (''sec-fetch-mode'', ''navigate''),
      (''sec-fetch-user'', ''?1''),
      (''sec-fetch-dest'', ''document''),
      (''accept-language'', ''en-US,en;q=0.9''),
      (''priority'', ''u=0, i'')]\<close>

definition web_accept :: string where
  "web_accept = ''text/html,application/xhtml+xml,application/xml;q=0.9,image/avif,image/webp,image/apng,*/*;q=0.8,application/signed-exchange;v=b3;q=0.7''"

definition sbsd_accept :: string where
  "sbsd_accept = ''text/html,application/xhtml+xml,application/xml;q=0.9,*/*;q=0.8''"

definition script_headers :: "header_dict \<Rightarrow> string \<Rightarrow> string \<Rightarrow> header_dict" where
  "script_headers headers website_url base =
     (let headers = dict_set headers ''referer'' website_url;
          headers = dict_set headers ''origin'' base;
          headers = dict_set headers ''accept'' ''*/*'';
          headers = dict_set headers ''sec-fetch-site'' ''same-origin'';
          headers = dict_set headers ''sec-fetch-dest'' ''script'';
          headers = dict_set headers ''sec-fetch-mode'' ''no-cors'';
          headers = dict_del headers ''upgrade-insecure-requests'';
          headers = dict_del headers ''sec-fetch-user'';
          headers = dict_del headers ''priority''
      in headers)"

text \<open>
  \<open>AkamaiWeb.fetch_and_extract\<close>. The result is the returned dict, or \<open>None\<close>.
  \<open>if not x\<close> on a cookie or a URL holds when it is \<open>None\<close> and when it is the
  empty text.
\<close>

definition AkamaiWeb_fetch_and_extract ::
  "pylib \<Rightarrow> client \<Rightarrow> string \<Rightarrow> string \<Rightarrow> string option \<Rightarrow> world
     \<Rightarrow> (string \<times> string) list option outcome \<times> world" where
  "AkamaiWeb_fetch_and_extract L c website_url user_agent proxy w =
     (let w0 = w\<lparr>sess_headers := []\<rparr>;
          headers = document_headers L user_agent web_accept
      in case Client_get c website_url proxy (Some headers) (Some False) (Some ''chrome133a'') w0 of
           (Blocked, w1) \<Rightarrow> (Blocked, w1)
         | (Raised e, w1) \<Rightarrow> (Raised e, w1)
         | (Returned resp, w1) \<Rightarrow>
             if status_code resp \<noteq> 200 then (Returned None, w1)
             else
               (case get_akamai_url L (resp_text resp) website_url of
                  None \<Rightarrow> (Returned None, w1)
                | Some (base, akamai_url) \<Rightarrow>
                    if akamai_url = [] then (Returned None, w1)
                    else
                      (case cookie_get (resp_cookies resp) ''_abck'' of
                         None \<Rightarrow> (Returned None, w1)
                       | Some abck \<Rightarrow>
                           if abck = [] then (Returned None, w1)
                           else
                             (case Client_get c akamai_url proxy
                                     (Some (script_headers headers website_url base))
                                     (Some False) (Some ''chrome133a'') w1 of
                                (Blocked, w2) \<Rightarrow> (Blocked, w2)
                              | (Raised e, w2) \<Rightarrow> (Raised e, w2)
                              | (Returned script_resp, w2) \<Rightarrow>
                                  if status_code script_resp \<noteq> 200 then (Returned None, w2)
                                  else
                                    (case cookie_get (sess_cookies w2) ''bm_sz'' of
                                       None \<Rightarrow> (Returned None, w2)
                                     | Some bm_sz \<Rightarrow>
                                         if bm_sz = [] then (Returned None, w2)
                                         else
                                           (Returned (Some
                                              [(''base_url'', base),
                                               (''akamai_url'', akamai_url),
                                               (''script_data'', resp_text script_resp),
                                               (''abck'', abck),
                                               (''bm_sz'', bm_sz)]), w2))))))"

text \<open>\<open>AkamaiSBSD._get_sbsd_url\<close>.\<close>

definition get_sbsd_url :: "pylib \<Rightarrow> string \<Rightarrow> string \<Rightarrow> string option" where
  "get_sbsd_url L html base =
     (case re_search L sbsd_pattern True html of
        None \<Rightarrow> None
      | Some src \<Rightarrow> Some (urljoin L base src))"

text \<open>
  The chain \<open>if bm_so: ... elif sbsd_o: ... else: return None\<close> of
  \<open>AkamaiSBSD.fetch_and_extract\<close>: the pair \<open>(cookie_name, cookie_value)\<close> it
  assigns, or \<open>None\<close> on the branch that returns.
\<close>

definition pick_cookie :: "string option \<Rightarrow> string option \<Rightarrow> (string \<times> string) option" where
  "pick_cookie bm_so sbsd_o =
     (if truthy_opt bm_so then
        (case bm_so of Some v \<Rightarrow> Some (''bm_so'', v) | None \<Rightarrow> None)
      else if truthy_opt sbsd_o then
        (case sbsd_o of Some v \<Rightarrow> Some (''sbsd_o'', v) | None \<Rightarrow> None)
      else None)"

text \<open>\<open>AkamaiSBSD.fetch_and_extract\<close>.\<close>

definition AkamaiSBSD_fetch_and_extract ::
  "pylib \<Rightarrow> client \<Rightarrow> string \<Rightarrow> string \<Rightarrow> string option \<Rightarrow> world
     \<Rightarrow> (string \<times> string) list option outcome \<times> world" where
  "AkamaiSBSD_fetch_and_extract L c website_url user_agent proxy w =
     (let w0 = w\<lparr>sess_headers := []\<rparr>;
          headers = document_headers L user_agent sbsd_accept
      in case Client_get c website_url proxy (Some headers) (Some False) (Some ''chrome133a'') w0 of
           (Blocked, w1) \<Rightarrow> (Blocked, w1)
         | (Raised e, w1) \<Rightarrow> (Raised e, w1)
         | (Returned resp, w1) \<Rightarrow>
             if status_code resp \<noteq> 200 then (Returned None, w1)
             else
               (let base = origin_of L website_url in
                case get_sbsd_url L (resp_text resp) base of
                  None \<Rightarrow> (Returned None, w1)
                | Some sbsd_url \<Rightarrow>
                    if sbsd_url = [] then (Returned None, w1)
                    else
                      (case Client_get c sbsd_url proxy
                              (Some (script_headers headers website_url base))
                              (Some False) (Some ''chrome133a'') w1 of
                         (Blocked, w2) \<Rightarrow> (Blocked, w2)
                       | (Raised e, w2) \<Rightarrow> (Raised e, w2)
                       | (Returned script_resp, w2) \<Rightarrow>
                           if status_code script_resp \<noteq> 200 then (Returned None, w2)
                           else
                             (let cookies = sess_cookies w2;
                                  bm_so = cookie_get cookies ''bm_so'';
                                  sbsd_o = cookie_get cookies ''sbsd_o''
                              in case pick_cookie bm_so sbsd_o of
                                   None \<Rightarrow> (Returned None, w2)
                                 | Some (cookie_name, cookie_value) \<Rightarrow>
                                     (Returned (Some
                                        [(''base_url'', base),
                                         (''sbsd_url'', sbsd_url),
                                         (''script_data'', resp_text script_resp),
                                         (''cookie_name'', cookie_name),
                                         (''cookie_value'', cookie_value)]), w2)))))"

subsection \<open>Decoding the payload\<close>

text \<open>
  \<open>base64.b64decode(s)\<close> for a text \<open>s\<close>, called without \<open>validate\<close>: the
  text must be ASCII (\<open>ValueError\<close> otherwise), and \<open>binascii.a2b_base64\<close> then
  reads it character by character. \<open>a2b_loop\<close> is its loop, with the position in the
  current group of four (\<open>quad_pos\<close>), the bits left over from the last character
  (\<open>leftchar\<close>), the padding characters counted (\<open>pads\<close>) and the bytes written:
  \<^item> \<open>=\<close> ends the decoding when the group holds two or three characters and the
    padding completes it; otherwise it is passed over, counted when the group holds two
    or three characters;
  \<^item> a character outside the alphabet is passed over;
  \<^item> a character of the alphabet resets the count and adds its six bits;
  \<^item> at the end of the text an unfinished group is an error (\<open>binascii.Error\<close>).

  A failure of either step is \<open>None\<close>.
\<close>

definition b64_alphabet :: string where
  "b64_alphabet = ''ABCDEFGHIJKLMNOPQRSTUVWXYZabcdefghijklmnopqrstuvwxyz0123456789+/''"

fun index_of :: "char \<Rightarrow> string \<Rightarrow> nat option" where
  "index_of c [] = None"
| "index_of c (x # xs) =
     (if c = x then Some 0
      else (case index_of c xs of None \<Rightarrow> None | Some i \<Rightarrow> Some (Suc i)))"

definition b64_value :: "char \<Rightarrow> nat option" where
  "b64_value c = index_of c b64_alphabet"

definition byte :: "nat \<Rightarrow> char" where
  "byte n = char_of n"

fun a2b_loop :: "nat \<Rightarrow> nat \<Rightarrow> nat \<Rightarrow> string \<Rightarrow> string \<Rightarrow> string option" where
  "a2b_loop quad_pos leftchar pads out [] = (if quad_pos \<noteq> 0 then None else Some out)"
| "a2b_loop quad_pos leftchar pads out (c # cs) =
     (if c = CHR ''='' then
        (if 2 \<le> quad_pos \<and> 4 \<le> quad_pos + (pads + 1) then Some out
         else a2b_loop quad_pos leftchar (if 2 \<le> quad_pos then pads + 1 else pads) out cs)
      else
        (case b64_value c of
           None \<Rightarrow> a2b_loop quad_pos leftchar pads out cs
         | Some this_ch \<Rightarrow>
             if quad_pos = 0 then a2b_loop 1 this_ch 0 out cs
             else if quad_pos = 1 then
               a2b_loop 2 (this_ch mod 16) 0 (out @ [byte (leftchar * 4 + this_ch div 16)]) cs
             else if quad_pos = 2 then
               a2b_loop 3 (this_ch mod 4) 0 (out @ [byte (leftchar * 16 + this_ch div 4)]) cs
             else a2b_loop 0 0 0 (out @ [byte (leftchar * 64 + this_ch)]) cs))"





section \<open>utils/datadome.py\<close>

subsection \<open>Text operations\<close>

text \<open>
  \<open>s.split(sep)\<close> for a non-empty separator: \<open>split_first\<close> cuts at the leftmost
  occurrence, and \<open>py_split\<close> goes on in the text after it. The separators of the
  program are literals; for the empty one, which Python rejects, the text is returned
  whole.
\<close>

fun split_first :: "string \<Rightarrow> string \<Rightarrow> (string \<times> string) option" where
  "split_first sep [] = None"
| "split_first sep (c # cs) =
     (if prefix sep (c # cs) then Some ([], drop (length sep) (c # cs))
      else (case split_first sep cs of
              None \<Rightarrow> None
            | Some (a, b) \<Rightarrow> Some (c # a, b)))"

lemma split_first_shorter:
  "split_first sep s = Some (a, b) \<Longrightarrow> sep \<noteq> [] \<Longrightarrow> length b < length s"
proof (induction s arbitrary: a b)
  case Nil
  then show ?case by simp
next
  case (Cons c cs)
  show ?case
  proof (cases "prefix sep (c # cs)")
    case True
    with Cons.prems show ?thesis by auto
  next
    case False
    with Cons.prems obtain a' where "split_first sep cs = Some (a', b)"
      by (auto split: option.splits)
    from Cons.IH [OF this Cons.prems(2)] show ?thesis by simp
  qed
qed

function py_split :: "string \<Rightarrow> string \<Rightarrow> string list" where
  "py_split sep s =
     (if sep = [] then [s]
      else (case split_first sep s of
              None \<Rightarrow> [s]
            | Some (a, b) \<Rightarrow> a # py_split sep b))"
  by pat_completeness auto
termination
proof (relation "measure (\<lambda>(sep, s). length s)", goal_cases)
  case 1
  show ?case by simp
next
  case (2 sep s x a b)
  then show ?case using split_first_shorter [of sep s a b] by simp
qed

declare py_split.simps [simp del]

text \<open>\<open>s.replace("'", '"')\<close>: every single quote becomes a double quote.\<close>

definition quotes_to_double :: "string \<Rightarrow> string" where
  "quotes_to_double s = map (\<lambda>c. if c = CHR 0x27 then CHR 0x22 else c) s"

text \<open>\<open>sep.join(xs)\<close>.\<close>

fun join :: "string \<Rightarrow> string list \<Rightarrow> string" where
  "join sep [] = []"
| "join sep [x] = x"
| "join sep (x # y # ys) = x @ sep @ join sep (y # ys)"

text \<open>
  \<open>urllib.parse.quote_plus\<close> encodes the text to UTF-8, which raises
  \<open>UnicodeEncodeError\<close> on a lone surrogate (\<open>None\<close> here), and then quotes the
  bytes: letters, digits and \<open>_.-~\<close> stay, a blank becomes \<open>+\<close>, every other
  byte becomes \<open>%XX\<close> in upper-case hexadecimal. \<open>urlencode\<close> of a dict quotes
  each key and the \<open>str\<close> of each value, in the order of the dict, and joins the pairs
  with \<open>&\<close>.
\<close>

definition hex_digit :: "nat \<Rightarrow> char" where
  "hex_digit n = ''0123456789ABCDEF'' ! n"

definition quote_char :: "char \<Rightarrow> string" where
  "quote_char c =
     (if c \<in> set ''ABCDEFGHIJKLMNOPQRSTUVWXYZabcdefghijklmnopqrstuvwxyz0123456789_.-~''
      then [c]
      else if c = CHR '' '' then ''+''
      else [CHR ''%'', hex_digit (of_char c div 16), hex_digit (of_char c mod 16)])"

definition quote_plus :: "string \<Rightarrow> string option" where
  "quote_plus s = (if valid_utf8 s then Some (concat (map quote_char s)) else None)"

fun quote_pairs :: "pylib \<Rightarrow> dict \<Rightarrow> string list option" where
  "quote_pairs L [] = Some []"
| "quote_pairs L ((k, v) # ps) =
     (case quote_plus k of
        None \<Rightarrow> None
      | Some qk \<Rightarrow>
          (case quote_plus (py_str L v) of
             None \<Rightarrow> None
           | Some qv \<Rightarrow>
               (case quote_pairs L ps of
                  None \<Rightarrow> None
                | Some qs \<Rightarrow> Some ((qk @ ''='' @ qv) # qs))))"

definition urlencode :: "pylib \<Rightarrow> dict \<Rightarrow> string option" where
  "urlencode L params = map_option (join ''&'') (quote_pairs L params)"

subsection \<open>The two parse functions\<close>

text \<open>
  The \<open>try\<close> block the two functions share.
  \<open>html.split("var dd=")[1].split("</script>")[0]\<close> raises \<open>IndexError\<close> when
  the split has one piece only; \<open>extract_dd\<close> is \<open>None\<close> then. \<open>parse_dd\<close>
  is the whole block: any exception in it becomes the \<open>RuntimeError\<close>.
\<close>

definition extract_dd :: "string \<Rightarrow> string option" where
  "extract_dd html =
     (case py_split ''var dd='' html of
        a # b # rest \<Rightarrow> (case py_split ''</script>'' b of x # xs \<Rightarrow> Some x | [] \<Rightarrow> None)
      | _ \<Rightarrow> None)"

definition parse_dd :: "pylib \<Rightarrow> string \<Rightarrow> error + json" where
  "parse_dd L html =
     (case extract_dd html of
        None \<Rightarrow> Inl (RuntimeError ''Failed to parse object.'')
      | Some js_object \<Rightarrow>
          (case json_loads L (quotes_to_double js_object) of
             None \<Rightarrow> Inl (RuntimeError ''Failed to parse object.'')
           | Some parsed \<Rightarrow> Inr parsed))"

text \<open>
  \<open>Datadome.parse_slider_url\<close> and \<open>Datadome.parse_interstitial_url\<close>. They make
  no request, so there is no world. \<open>parsed.get\<close> on a value that is not a dict raises
  \<open>AttributeError\<close>, outside the \<open>try\<close>, and so does \<open>urlencode\<close> raise its
  error. The slider function returns a URL or \<open>None\<close>, the interstitial function
  a URL.
\<close>

definition parse_slider_url :: "pylib \<Rightarrow> string \<Rightarrow> string \<Rightarrow> string \<Rightarrow> string option outcome" where
  "parse_slider_url L html datadome_cookie referer =
     (case parse_dd L html of
        Inl e \<Rightarrow> Raised e
      | Inr parsed \<Rightarrow>
          (case parsed of
             JObj d \<Rightarrow>
               if dict_get d ''t'' = JStr ''bv'' then Returned None
               else
                 (let params =
                        [(''initialCid'', dict_get d ''cid''),
                         (''hash'', dict_get d ''hsh''),
                         (''cid'', JStr datadome_cookie),
                         (''t'', dict_get d ''t''),
                         (''referer'', JStr referer),
                         (''s'', JStr (py_str L (dict_get d ''s''))),
                         (''e'', dict_get d ''e''),
                         (''dm'', JStr ''cd'')]
                  in case urlencode L params of
                       None \<Rightarrow> Raised UnicodeEncodeError
                     | Some query \<Rightarrow>
                         Returned (Some (''https://geo.captcha-delivery.com/captcha/?'' @ query)))
           | _ \<Rightarrow> Raised (AttributeError (type_name parsed) ''get'')))"


subsection \<open>Concrete inputs\<close>

text \<open>
  A client, a library and replies for the worked examples. On the texts of the examples
  \<open>lib0\<close> answers as CPython does: \<open>strip\<close> removes the blanks around a text
  that holds no other white space; the three patterns find what they find in \<open>ua0\<close>,
  \<open>akamai_page\<close> and \<open>sbsd_page\<close>; \<open>site0\<close> splits into its scheme, host and
  path, and a path from the root is joined to an origin by appending it; \<open>dd_text\<close>
  is the JSON text of \<open>dd_obj\<close> and \<open>bv_text\<close> that of \<open>bv_obj\<close>, and the
  empty text is no JSON; the operating system sleeps for a second. Elsewhere it answers
  with a default that no example reads.
\<close>

definition ua0 :: string where
  "ua0 = ''Mozilla/5.0 (Windows NT 10.0; Win64; x64) AppleWebKit/537.36 (KHTML, like Gecko) Chrome/141.0.0.0 Safari/537.36''"

definition site0 :: string where
  "site0 = ''https://example.com/''"

definition akamai_page :: string where
  \<open>akamai_page = ''<html><script type="text/javascript" src="/abc/def_1"></script></html>''\<close>

definition sbsd_page :: string where
  \<open>sbsd_page = ''<html><script src="/.well-known/sbsd/abc"></script></html>''\<close>

definition dd_text :: string where
  \<open>dd_text = ''{"cid":"C","hsh":"H","t":"T","s":1,"e":"E"}''\<close>

definition dd_obj :: json where
  "dd_obj = JObj [(''cid'', JStr ''C''), (''hsh'', JStr ''H''), (''t'', JStr ''T''),
                  (''s'', JInt 1), (''e'', JStr ''E'')]"

definition bv_text :: string where
  \<open>bv_text = ''{"t":"bv"}''\<close>

definition bv_obj :: json where
  "bv_obj = JObj [(''t'', JStr ''bv'')]"

definition lib0 :: pylib where
  "lib0 =
     \<lparr>str_strip = (\<lambda>s. dropWhile (\<lambda>c. c = CHR '' '')
                          (rev (dropWhile (\<lambda>c. c = CHR '' '') (rev s)))),
      repr_of = (\<lambda>v. []),
      re_search = (\<lambda>p i s.
         if p = chrome_pattern \<and> \<not> i \<and> s = ua0 then Some ''141''
         else if p = akamai_pattern \<and> \<not> i \<and> s = akamai_page then Some ''/abc/def_1''
         else if p = sbsd_pattern \<and> i \<and> s = sbsd_page then Some ''/.well-known/sbsd/abc''
         else None),
      urlparse = (\<lambda>u. if u = site0 then (''https'', ''example.com'', ''/'') else ([], [], u)),
      urljoin = (\<lambda>b r. b @ r),
      json_loads = (\<lambda>s. if s = dd_text then Some dd_obj
                        else if s = bv_text then Some bv_obj else None),
      os_sleep_refused = (\<lambda>i. 1 < i)\<rparr>"

definition client0 :: client where
  "client0 = \<lparr>api_key = ''key'', base_url = ''https://salamoonder.com/api'',
               impersonate = ''chrome133a''\<rparr>"

definition ok_reply :: "json \<Rightarrow> exchange" where
  "ok_reply j =
     \<lparr>reply = \<lparr>status_code = 200, resp_text = [], resp_cookies = [], resp_json = Some j\<rparr>,
      jar_after = []\<rparr>"

definition world0 :: "exchange list \<Rightarrow> world" where
  "world0 es = \<lparr>sess_headers = [], sess_cookies = [], pending = es, history = []\<rparr>"





lemma key0: "\<not> key_missing lib0 (api_key client0)"
  by (simp add: key_missing_def lib0_def client0_def)


definition page_reply :: "string \<Rightarrow> jar \<Rightarrow> jar \<Rightarrow> exchange" where
  "page_reply body set_cookies jar =
     \<lparr>reply = \<lparr>status_code = 200, resp_text = body, resp_cookies = set_cookies,
                resp_json = None\<rparr>,
      jar_after = jar\<rparr>"

definition stale_world :: world where
  "stale_world = \<lparr>sess_headers = [(''x-old-target'', ''1'')],
                   sess_cookies = [(''_abck'', ''stale'')], pending = [], history = []\<rparr>"

subsection \<open>The fields of a task payload\<close>

text \<open>
  The table of the remote protocol: for each task type the payload fields that are
  required and those that are optional, and the keyword argument each field is read from
  (the field's own name, except for the two Kasada fields).
\<close>

definition required_fields :: "string \<Rightarrow> string list" where
  "required_fields ty =
     (if ty = ''KasadaCaptchaSolver'' then [''pjs'']
      else if ty = ''Twitch_PublicIntegrity'' then [''access_token'', ''proxy'']
      else if ty = ''IncapsulaReese84Solver'' then [''website'', ''submit_payload'']
      else if ty = ''IncapsulaUTMVCSolver'' then [''website'']
      else if ty = ''AkamaiWebSensorSolver''
        then [''url'', ''abck'', ''bmsz'', ''script'', ''sensor_url'', ''count'', ''data'']
      else if ty = ''AkamaiSBSDSolver'' then [''url'', ''cookie'', ''sbsd_url'', ''script'']
      else if ty = ''DataDomeSliderSolver'' then [''captcha_url'', ''country_code'']
      else if ty = ''DataDomeInterstitialSolver'' then [''captcha_url'', ''country_code'']
      else [])"

definition optional_fields :: "string \<Rightarrow> string list" where
  "optional_fields ty =
     (if ty = ''KasadaCaptchaSolver'' then [''cdOnly'']
      else if ty = ''Twitch_PublicIntegrity'' then [''device_id'', ''client_id'']
      else if ty = ''IncapsulaReese84Solver'' then [''user_agent'']
      else if ty = ''IncapsulaUTMVCSolver'' then [''user_agent'']
      else if ty = ''AkamaiWebSensorSolver'' then [''user_agent'']
      else if ty = ''AkamaiSBSDSolver'' then [''user_agent'']
      else if ty = ''DataDomeSliderSolver'' then [''user_agent'']
      else if ty = ''DataDomeInterstitialSolver'' then [''user_agent'']
      else [])"

definition kwarg_name :: "string \<Rightarrow> string" where
  "kwarg_name f =
     (if f = ''pjs'' then ''pjs_url'' else if f = ''cdOnly'' then ''cd_only'' else f)"

text \<open>
  The fields the payload is to hold: \<open>type\<close>, the required fields, and the optional
  fields whose keyword argument the caller supplied.
\<close>

definition payload_fields :: "string \<Rightarrow> dict \<Rightarrow> string set" where
  "payload_fields ty kwargs =
     {''type''} \<union> set (required_fields ty)
       \<union> set (filter (\<lambda>f. dict_has kwargs (kwarg_name f)) (optional_fields ty))"

lemma keys_dict_set: "fst ` set (dict_set d k v) = insert k (fst ` set d)"
  by (induction d) (force split: if_splits)+

lemmas task_field_defs =
  createTask_task_def payload_fields_def required_fields_def optional_fields_def
  kwarg_name_def opt_user_agent_def keys_dict_set Let_def

text \<open>
  Seven of the eight task types put into the payload exactly the fields of the table,
  whatever keyword arguments are passed.
\<close>

lemma fields_Twitch:
  "fst ` set (createTask_task ''Twitch_PublicIntegrity'' kwargs)
     = payload_fields ''Twitch_PublicIntegrity'' kwargs"
  by (simp add: task_field_defs) auto

lemma fields_Reese84:
  "fst ` set (createTask_task ''IncapsulaReese84Solver'' kwargs)
     = payload_fields ''IncapsulaReese84Solver'' kwargs"
  by (simp add: task_field_defs) auto

lemma fields_UTMVC:
  "fst ` set (createTask_task ''IncapsulaUTMVCSolver'' kwargs)
     = payload_fields ''IncapsulaUTMVCSolver'' kwargs"
  by (simp add: task_field_defs) auto

lemma fields_AkamaiWeb:
  "fst ` set (createTask_task ''AkamaiWebSensorSolver'' kwargs)
     = payload_fields ''AkamaiWebSensorSolver'' kwargs"
  by (simp add: task_field_defs) auto

lemma fields_AkamaiSBSD:
  "fst ` set (createTask_task ''AkamaiSBSDSolver'' kwargs)
     = payload_fields ''AkamaiSBSDSolver'' kwargs"
  by (simp add: task_field_defs) auto

lemma fields_DataDomeSlider:
  "fst ` set (createTask_task ''DataDomeSliderSolver'' kwargs)
     = payload_fields ''DataDomeSliderSolver'' kwargs"
  by (simp add: task_field_defs) auto

lemma fields_DataDomeInterstitial:
  "fst ` set (createTask_task ''DataDomeInterstitialSolver'' kwargs)
     = payload_fields ''DataDomeInterstitialSolver'' kwargs"
  by (simp add: task_field_defs) auto

text \<open>
  Claim C2. The payload of a task is to hold the required fields of its type and only
  those optional fields the caller supplied, an absent optional field being left out
  rather than sent as null. The Kasada branch does not do this: called with
  \<open>pjs_url\<close> alone, it stores \<open>cdOnly\<close> all the same, with the value
  \<open>None\<close>, so the payload holds a field that \<open>payload_fields\<close> excludes.
  Every other branch guards its optional fields with \<open>if k in kwargs\<close>.
\<close>

theorem createTask_Kasada_sends_null_cdOnly:
  "createTask_task ''KasadaCaptchaSolver'' [(''pjs_url'', JStr ''https://example.com/pjs'')]
     = [(''type'', JStr ''KasadaCaptchaSolver''), (''pjs'', JStr ''https://example.com/pjs''),
        (''cdOnly'', JNull)]
   \<and> ''cdOnly'' \<notin> payload_fields ''KasadaCaptchaSolver''
                   [(''pjs_url'', JStr ''https://example.com/pjs'')]"
  by (simp add: task_field_defs dict_get_def dict_has_def)

subsection \<open>One call of the API\<close>

text \<open>Updates of the world in any order denote the same world, field by field.\<close>

lemma upd_history:
  "w\<lparr>history := h\<rparr> = \<lparr>sess_headers = sess_headers w, sess_cookies = sess_cookies w,
      pending = pending w, history = h\<rparr>"
  by (cases w) simp

lemma upd_pending:
  "w\<lparr>pending := p\<rparr> = \<lparr>sess_headers = sess_headers w, sess_cookies = sess_cookies w,
      pending = p, history = history w\<rparr>"
  by (cases w) simp

lemma upd_cookies:
  "w\<lparr>sess_cookies := j\<rparr> = \<lparr>sess_headers = sess_headers w, sess_cookies = j,
      pending = pending w, history = history w\<rparr>"
  by (cases w) simp

lemma upd_headers:
  "w\<lparr>sess_headers := hs\<rparr> = \<lparr>sess_headers = hs, sess_cookies = sess_cookies w,
      pending = pending w, history = history w\<rparr>"
  by (cases w) simp

lemmas world_updates = upd_history upd_pending upd_cookies upd_headers


lemma post_accepted:
  assumes "\<not> key_missing L (api_key c)" "pending w = e # es"
    and "status_code (reply e) < 400" "resp_json (reply e) = Some data"
  shows "Client_post_api L c u p px w
           = (Returned data,
              w\<lparr>history := history w
                   @ [Sent (sess_headers w) (sess_cookies w) (api_request c u p px)],
                pending := es, sess_cookies := jar_after e\<rparr>)"
  using assms by (simp add: Client_post_api_def session_request_def Let_def)

lemma task_result_accepted:
  "task_result e = Some d \<Longrightarrow>
     status_code (reply e) < 400 \<and> resp_json (reply e) = Some (JObj d)"
  by (auto simp: task_result_def split: if_splits option.splits json.splits)

lemma new_actions_append:
  "history w' = history w @ evs \<Longrightarrow> new_actions w w' = map action_of evs"
  by (simp add: new_actions_def)

subsection \<open>The polling loop\<close>






subsection \<open>Claims about the polling loop\<close>







subsection \<open>Claim about the response to createTask\<close>

text \<open>
  Claim C10, as amended. When the response to \<open>createTask\<close> is a task result (HTTP
  status below 400, body a JSON object) without a \<open>taskId\<close> entry, the call returns
  \<open>None\<close> and raises nothing.
\<close>

theorem createTask_returns_None_without_taskId:
  assumes key: "\<not> key_missing L (api_key c)"
    and script: "pending w = e # es"
    and d: "task_result e = Some d"
    and absent: "\<not> dict_has d ''taskId''"
  shows "fst (createTask L c task_type kwargs w) = Returned JNull"
proof -
  from task_result_accepted [OF d]
  have "fst (Client_post_api L c create_url
               [(''task'', JObj (createTask_task task_type kwargs))] None w)
          = Returned (JObj d)"
    by (simp add: post_accepted [OF key script])
  moreover have "dict_get d ''taskId'' = JNull"
    using absent by (simp add: dict_get_def dict_has_def)
  ultimately show ?thesis
    by (auto simp: createTask_def split: prod.splits)
qed

theorem createTask_returns_None_without_taskId_witness:
  "fst (createTask lib0 client0 ''IncapsulaUTMVCSolver'' [(''website'', JStr ''https://x/'')]
          (world0 [ok_reply (JObj [(''error_id'', JInt 0)])])) = Returned JNull"
proof -
  have s: "pending (world0 [ok_reply (JObj [(''error_id'', JInt 0)])])
             = ok_reply (JObj [(''error_id'', JInt 0)]) # []"
    by (simp add: world0_def)
  have d: "task_result (ok_reply (JObj [(''error_id'', JInt 0)])) = Some [(''error_id'', JInt 0)]"
    by (simp add: task_result_def ok_reply_def)
  have a: "\<not> dict_has [(''error_id'', JInt 0)] ''taskId''"
    by (simp add: dict_has_def)
  from createTask_returns_None_without_taskId [OF key0 s d a]
  show ?thesis .
qed

text \<open>
  The claim as first stated speaks of every parseable JSON body without a \<open>taskId\<close>
  field. The body \<open>[]\<close> is one, sent with status 200; on it \<open>data.get\<close> raises
  \<open>AttributeError\<close>, since a list has no \<open>get\<close>.
\<close>

theorem createTask_list_body_raises:
  "status_code (reply (ok_reply (JArr []))) < 400
   \<and> resp_json (reply (ok_reply (JArr []))) = Some (JArr [])
   \<and> fst (createTask lib0 client0 ''IncapsulaUTMVCSolver'' [(''website'', JStr ''https://x/'')]
            (world0 [ok_reply (JArr [])]))
       = Raised (AttributeError ''list'' ''get'')"
  by (simp add: createTask_def Client_post_api_def session_request_def key0 world0_def
        ok_reply_def)

section \<open>Claims about the Akamai extractors\<close>

lemma session_request_reply:
  "pending w = e # es \<Longrightarrow>
     session_request rq w
       = (Returned (reply e),
          \<lparr>sess_headers = sess_headers w, sess_cookies = jar_after e, pending = es,
           history = history w @ [Sent (sess_headers w) (sess_cookies w) rq]\<rparr>)"
  by (simp add: session_request_def Let_def world_updates)

lemma session_request_blocked:
  "pending w = [] \<Longrightarrow>
     session_request rq w
       = (Blocked,
          \<lparr>sess_headers = sess_headers w, sess_cookies = sess_cookies w, pending = [],
           history = history w @ [Sent (sess_headers w) (sess_cookies w) rq]\<rparr>)"
  by (simp add: session_request_def Let_def world_updates)

lemma session_request_history:
  "history (snd (session_request rq w))
     = history w @ [Sent (sess_headers w) (sess_cookies w) rq]"
  by (cases "pending w") (simp_all add: session_request_reply session_request_blocked)

lemma session_request_historyD:
  "session_request rq w = (r, w1) \<Longrightarrow>
     history w1 = history w @ [Sent (sess_headers w) (sess_cookies w) rq]"
  using session_request_history [of rq w] by simp

text \<open>
  Claim C6. When the response to the first GET has a status other than 200, or sets no
  \<open>_abck\<close> cookie, or holds no match of the script pattern, the Akamai-Web extractor
  returns \<open>None\<close>; the only request it has made is that first GET, and the next
  exchange of the script is untouched.
\<close>

theorem AkamaiWeb_fetch_and_extract_short_circuit:
  assumes script: "pending w = e # es"
    and fail: "status_code (reply e) \<noteq> 200
             \<or> cookie_get (resp_cookies (reply e)) ''_abck'' = None
             \<or> re_search L akamai_pattern False (resp_text (reply e)) = None"
  shows "fst (AkamaiWeb_fetch_and_extract L c website_url user_agent proxy w) = Returned None
       \<and> pending (snd (AkamaiWeb_fetch_and_extract L c website_url user_agent proxy w)) = es
       \<and> new_actions w (snd (AkamaiWeb_fetch_and_extract L c website_url user_agent proxy w))
           = [Request (get_request c website_url proxy
                         (Some (document_headers L user_agent web_accept))
                         (Some False) (Some ''chrome133a''))]"
proof -
  let ?rq = "get_request c website_url proxy (Some (document_headers L user_agent web_accept))
               (Some False) (Some ''chrome133a'')"
  let ?w1 = "\<lparr>sess_headers = [], sess_cookies = jar_after e, pending = es,
              history = history w @ [Sent [] (sess_cookies w) ?rq]\<rparr>"
  have first: "Client_get c website_url proxy (Some (document_headers L user_agent web_accept))
                 (Some False) (Some ''chrome133a'') (w\<lparr>sess_headers := []\<rparr>)
                 = (Returned (reply e), ?w1)"
    using script by (simp add: Client_get_def session_request_reply)
  have "AkamaiWeb_fetch_and_extract L c website_url user_agent proxy w = (Returned None, ?w1)"
    using fail
    by (auto simp: AkamaiWeb_fetch_and_extract_def Let_def first get_akamai_url_def
          split: option.splits)
  then show ?thesis by (simp add: new_actions_def)
qed

theorem AkamaiWeb_fetch_and_extract_short_circuit_witness:
  "fst (AkamaiWeb_fetch_and_extract lib0 client0 site0 ua0 None
          (world0 [page_reply akamai_page [] [], page_reply ''var a;'' [] [(''bm_sz'', ''z'')]]))
     = Returned None
   \<and> pending (snd (AkamaiWeb_fetch_and_extract lib0 client0 site0 ua0 None
          (world0 [page_reply akamai_page [] [], page_reply ''var a;'' [] [(''bm_sz'', ''z'')]])))
     = [page_reply ''var a;'' [] [(''bm_sz'', ''z'')]]"
proof -
  let ?w = "world0 [page_reply akamai_page [] [], page_reply ''var a;'' [] [(''bm_sz'', ''z'')]]"
  have s: "pending ?w = page_reply akamai_page [] [] # [page_reply ''var a;'' [] [(''bm_sz'', ''z'')]]"
    by (simp add: world0_def)
  have f: "status_code (reply (page_reply akamai_page [] [])) \<noteq> 200
         \<or> cookie_get (resp_cookies (reply (page_reply akamai_page [] []))) ''_abck'' = None
         \<or> re_search lib0 akamai_pattern False (resp_text (reply (page_reply akamai_page [] [])))
              = None"
    by (simp add: page_reply_def cookie_get_def)
  from AkamaiWeb_fetch_and_extract_short_circuit [OF s f, of client0 site0 ua0 None]
  show ?thesis by simp
qed

text \<open>
  Claim C8, as amended. Each extractor starts by clearing the session's headers, and only
  them: the first request of the run is sent with no session header and with the cookie
  jar as the run found it.
\<close>

theorem fetch_and_extract_clears_headers_only:
  "take 1 (drop (length (history w))
             (history (snd (AkamaiWeb_fetch_and_extract L c website_url user_agent proxy w))))
     = [Sent [] (sess_cookies w)
          (get_request c website_url proxy (Some (document_headers L user_agent web_accept))
             (Some False) (Some ''chrome133a''))]
   \<and> take 1 (drop (length (history w))
             (history (snd (AkamaiSBSD_fetch_and_extract L c website_url user_agent proxy w))))
     = [Sent [] (sess_cookies w)
          (get_request c website_url proxy (Some (document_headers L user_agent sbsd_accept))
             (Some False) (Some ''chrome133a''))]"
proof -
  have web: "\<exists>more. history (snd (AkamaiWeb_fetch_and_extract L c website_url user_agent proxy w))
      = history w @ Sent [] (sess_cookies w)
          (get_request c website_url proxy (Some (document_headers L user_agent web_accept))
             (Some False) (Some ''chrome133a'')) # more"
    by (auto simp: AkamaiWeb_fetch_and_extract_def Let_def Client_get_def
          split: option.splits prod.splits outcome.splits dest!: session_request_historyD)
  have sbsd: "\<exists>more. history (snd (AkamaiSBSD_fetch_and_extract L c website_url user_agent proxy w))
      = history w @ Sent [] (sess_cookies w)
          (get_request c website_url proxy (Some (document_headers L user_agent sbsd_accept))
             (Some False) (Some ''chrome133a'')) # more"
    by (auto simp: AkamaiSBSD_fetch_and_extract_def Let_def Client_get_def
          split: option.splits prod.splits outcome.splits dest!: session_request_historyD)
  from web sbsd show ?thesis by auto
qed

text \<open>
  The claim as first stated has the cookies cleared as well. A session that holds a
  cookie and a header of an earlier target sends its first request without the header
  but with the cookie still in the jar.
\<close>

theorem AkamaiWeb_first_request_keeps_cookies:
  "history (snd (AkamaiWeb_fetch_and_extract lib0 client0 site0 ua0 None stale_world))
     = [Sent [] [(''_abck'', ''stale'')]
          (get_request client0 site0 None (Some (document_headers lib0 ua0 web_accept))
             (Some False) (Some ''chrome133a''))]"
  by (simp add: AkamaiWeb_fetch_and_extract_def Let_def Client_get_def stale_world_def
        session_request_blocked)

lemma origin_site0: "origin_of lib0 site0 = ''https://example.com''"
  unfolding origin_of_def lib0_def by simp

text \<open>
  Claim C9, as amended. After a successful fetch of the SBSD script (both responses have
  status 200 and a script URL was found), the extractor reads the two cookies from the
  session's jar. A \<open>bm_so\<close> cookie with a non-empty value is returned under the
  name \<open>bm_so\<close>, whatever \<open>sbsd_o\<close> is; when \<open>bm_so\<close> is missing or empty, an
  \<open>sbsd_o\<close> cookie with a non-empty value is returned under its name; when neither
  has a non-empty value, the result is \<open>None\<close>.
\<close>

definition sbsd_context ::
  "string \<Rightarrow> string \<Rightarrow> string \<Rightarrow> string \<Rightarrow> string \<Rightarrow> (string \<times> string) list" where
  "sbsd_context base sbsd_url script_data cookie_name cookie_value =
     [(''base_url'', base), (''sbsd_url'', sbsd_url), (''script_data'', script_data),
      (''cookie_name'', cookie_name), (''cookie_value'', cookie_value)]"

theorem AkamaiSBSD_prefers_bm_so:
  assumes script: "pending w = e1 # e2 # es"
    and ok1: "status_code (reply e1) = 200"
    and found: "get_sbsd_url L (resp_text (reply e1)) (origin_of L website_url) = Some sbsd_url"
    and nonempty: "sbsd_url \<noteq> []"
    and ok2: "status_code (reply e2) = 200"
  shows "(cookie_get (jar_after e2) ''bm_so'' = Some b \<and> b \<noteq> [] \<longrightarrow>
            fst (AkamaiSBSD_fetch_and_extract L c website_url user_agent proxy w)
              = Returned (Some (sbsd_context (origin_of L website_url) sbsd_url
                                  (resp_text (reply e2)) ''bm_so'' b)))
       \<and> (\<not> truthy_opt (cookie_get (jar_after e2) ''bm_so'')
            \<and> cookie_get (jar_after e2) ''sbsd_o'' = Some s \<and> s \<noteq> [] \<longrightarrow>
            fst (AkamaiSBSD_fetch_and_extract L c website_url user_agent proxy w)
              = Returned (Some (sbsd_context (origin_of L website_url) sbsd_url
                                  (resp_text (reply e2)) ''sbsd_o'' s)))
       \<and> (\<not> truthy_opt (cookie_get (jar_after e2) ''bm_so'')
            \<and> \<not> truthy_opt (cookie_get (jar_after e2) ''sbsd_o'') \<longrightarrow>
            fst (AkamaiSBSD_fetch_and_extract L c website_url user_agent proxy w)
              = Returned None)"
proof -
  let ?h = "document_headers L user_agent sbsd_accept"
  let ?rq1 = "get_request c website_url proxy (Some ?h) (Some False) (Some ''chrome133a'')"
  let ?w1 = "\<lparr>sess_headers = [], sess_cookies = jar_after e1, pending = e2 # es,
              history = history w @ [Sent [] (sess_cookies w) ?rq1]\<rparr>"
  let ?rq2 = "get_request c sbsd_url proxy
                (Some (script_headers ?h website_url (origin_of L website_url)))
                (Some False) (Some ''chrome133a'')"
  let ?w2 = "\<lparr>sess_headers = [], sess_cookies = jar_after e2, pending = es,
              history = history w @ [Sent [] (sess_cookies w) ?rq1,
                                     Sent [] (jar_after e1) ?rq2]\<rparr>"
  have first: "Client_get c website_url proxy (Some ?h) (Some False) (Some ''chrome133a'')
                 (w\<lparr>sess_headers := []\<rparr>) = (Returned (reply e1), ?w1)"
    using script by (simp add: Client_get_def session_request_reply)
  have second: "Client_get c sbsd_url proxy
                  (Some (script_headers ?h website_url (origin_of L website_url)))
                  (Some False) (Some ''chrome133a'') ?w1 = (Returned (reply e2), ?w2)"
    by (simp add: Client_get_def session_request_reply)
  have run: "AkamaiSBSD_fetch_and_extract L c website_url user_agent proxy w
      = (case pick_cookie (cookie_get (jar_after e2) ''bm_so'')
                          (cookie_get (jar_after e2) ''sbsd_o'') of
           None \<Rightarrow> (Returned None, ?w2)
         | Some (cookie_name, cookie_value) \<Rightarrow>
             (Returned (Some (sbsd_context (origin_of L website_url) sbsd_url
                                (resp_text (reply e2)) cookie_name cookie_value)), ?w2))"
    unfolding AkamaiSBSD_fetch_and_extract_def Let_def first
    by (simp add: ok1 found nonempty second ok2 sbsd_context_def split: option.splits)
  show ?thesis
    unfolding run by (auto simp: pick_cookie_def split: option.splits)
qed

theorem AkamaiSBSD_prefers_bm_so_witness:
  "fst (AkamaiSBSD_fetch_and_extract lib0 client0 site0 ua0 None
          (world0 [page_reply sbsd_page [] [],
                   page_reply ''var a;'' [] [(''sbsd_o'', ''S''), (''bm_so'', ''B'')]]))
     = Returned (Some (sbsd_context ''https://example.com''
                         ''https://example.com/.well-known/sbsd/abc'' ''var a;'' ''bm_so'' ''B''))"
proof -
  let ?e1 = "page_reply sbsd_page [] []"
  let ?e2 = "page_reply ''var a;'' [] [(''sbsd_o'', ''S''), (''bm_so'', ''B'')]"
  note o = origin_site0
  have s: "pending (world0 [?e1, ?e2]) = ?e1 # ?e2 # []"
    by (simp add: world0_def)
  have ok1: "status_code (reply ?e1) = 200" by (simp add: page_reply_def)
  have ok2: "status_code (reply ?e2) = 200" by (simp add: page_reply_def)
  have f: "get_sbsd_url lib0 (resp_text (reply ?e1)) (origin_of lib0 site0)
             = Some ''https://example.com/.well-known/sbsd/abc''"
    by (simp add: o get_sbsd_url_def page_reply_def) (simp add: lib0_def)
  have n: "''https://example.com/.well-known/sbsd/abc'' \<noteq> []" by simp
  from AkamaiSBSD_prefers_bm_so [OF s ok1 f n ok2, of "''B''" client0 ua0 None]
  show ?thesis by (simp add: o page_reply_def cookie_get_def)
qed

text \<open>
  The claim as first stated gives \<open>bm_so\<close> whenever both cookies are in the jar. The
  test \<open>if bm_so:\<close> fails on a cookie that is there with an empty value, and the
  extractor then returns \<open>sbsd_o\<close>.
\<close>

theorem AkamaiSBSD_empty_bm_so_yields_sbsd_o:
  "cookie_get [(''bm_so'', ''''), (''sbsd_o'', ''S'')] ''bm_so'' = Some ''''
   \<and> cookie_get [(''bm_so'', ''''), (''sbsd_o'', ''S'')] ''sbsd_o'' = Some ''S''
   \<and> fst (AkamaiSBSD_fetch_and_extract lib0 client0 site0 ua0 None
            (world0 [page_reply sbsd_page [] [],
                     page_reply ''var a;'' [] [(''bm_so'', ''''), (''sbsd_o'', ''S'')]]))
       = Returned (Some (sbsd_context ''https://example.com''
                           ''https://example.com/.well-known/sbsd/abc'' ''var a;''
                           ''sbsd_o'' ''S''))"
proof -
  note o = origin_site0
  have f: "get_sbsd_url lib0 sbsd_page ''https://example.com''
             = Some ''https://example.com/.well-known/sbsd/abc''"
    by (simp add: get_sbsd_url_def lib0_def)
  show ?thesis
    by (simp add: AkamaiSBSD_fetch_and_extract_def Let_def Client_get_def world0_def
          page_reply_def session_request_reply o f cookie_get_def pick_cookie_def
          sbsd_context_def)
qed


subsection \<open>Claim about the payload of post\_sbsd\<close>

text \<open>Two facts about the decoder: what it passes over, and what it needs.\<close>

lemma a2b_loop_passes_over:
  "\<forall>c \<in> set s. c \<noteq> CHR ''='' \<and> b64_value c = None \<Longrightarrow>
     a2b_loop quad_pos leftchar pads out s = a2b_loop quad_pos leftchar pads out []"
  by (induction s) simp_all

lemma a2b_loop_alphabet_only:
  "\<forall>c \<in> set s. c \<noteq> CHR ''='' \<and> b64_value c \<noteq> None \<Longrightarrow> quad_pos < 4 \<Longrightarrow>
     (a2b_loop quad_pos leftchar pads out s = None) = ((quad_pos + length s) mod 4 \<noteq> 0)"
proof (induction s arbitrary: quad_pos leftchar pads out)
  case Nil
  then show ?case by simp
next
  case (Cons c s)
  from Cons.prems obtain v where v: "b64_value c = Some v" and ne: "c \<noteq> CHR ''=''"
    and rest: "\<forall>c \<in> set s. c \<noteq> CHR ''='' \<and> b64_value c \<noteq> None"
    by auto
  from Cons.prems(2) consider "quad_pos = 0" | "quad_pos = 1" | "quad_pos = 2" | "quad_pos = 3"
    by linarith
  then show ?case
  proof cases
    case 1
    with Cons.IH [OF rest, of 1] v ne show ?thesis by simp
  next
    case 2
    with Cons.IH [OF rest, of 2] v ne show ?thesis by simp
  next
    case 3
    with Cons.IH [OF rest, of 3] v ne show ?thesis by (simp add: add.commute)
  next
    case 4
    with Cons.IH [OF rest, of 0] v ne show ?thesis by (simp add: mod_Suc)
  qed
qed





section \<open>Claims about the DataDome parsers\<close>

subsection \<open>Where the text is cut\<close>

lemma split_first_at_start:
  "sep \<noteq> [] \<Longrightarrow> split_first sep (sep @ s) = Some ([], s)"
  by (cases sep) simp_all


lemma split_first_skip:
  assumes sep: "sep = x # xs"
  shows "x \<notin> set a \<Longrightarrow>
     split_first sep (a @ s)
       = (case split_first sep s of None \<Rightarrow> None | Some (p, q) \<Rightarrow> Some (a @ p, q))"
proof (induction a)
  case Nil
  show ?case by (simp split: option.splits)
next
  case (Cons c a)
  then have "\<not> prefix sep (c # a @ s)" using sep by auto
  then show ?case using Cons by (simp split: option.splits)
qed

text \<open>
  A separator whose first character occurs in it only once cannot overlap itself: where
  it begins in \<open>p @ sep @ s\<close> with a non-empty \<open>p\<close>, it lies within \<open>p\<close>.
\<close>

lemma prefix_no_overlap:
  assumes once: "hd sep \<notin> set (tl sep)" and ne: "p \<noteq> []"
    and pre: "prefix sep (p @ sep @ s)"
  shows "prefix sep p"
proof (rule ccontr)
  assume np: "\<not> prefix sep p"
  from pre have "prefix sep p \<or> (\<exists>us. sep = p @ us \<and> prefix us (sep @ s))"
    by (simp only: prefix_append)
  with np obtain us where sep: "sep = p @ us" and us: "prefix us (sep @ s)"
    by blast
  from ne obtain a p' where p: "p = a # p'"
    by (cases p) auto
  from np sep have "us \<noteq> []"
    by auto
  then obtain u us' where u: "us = u # us'"
    by (cases us) auto
  have sep': "sep = a # p' @ u # us'"
    unfolding sep p u by simp
  have "prefix (u # us') ((a # p' @ u # us') @ s)"
    using us unfolding u sep' [symmetric] .
  then have "u = a"
    by simp
  with sep' have "hd sep \<in> set (tl sep)"
    by simp
  with once show False
    by simp
qed

lemma split_first_before:
  assumes ne: "sep \<noteq> []" and once: "hd sep \<notin> set (tl sep)"
  shows "\<not> sublist sep p \<Longrightarrow> split_first sep (p @ sep @ s) = Some (p, s)"
proof (induction p)
  case Nil
  show ?case using split_first_at_start [OF ne, of s] by simp
next
  case (Cons c cs)
  from Cons.prems have np: "\<not> prefix sep (c # cs)" and ns: "\<not> sublist sep cs"
    by (simp_all add: sublist_Cons_right)
  have "\<not> prefix sep ((c # cs) @ sep @ s)"
  proof
    assume "prefix sep ((c # cs) @ sep @ s)"
    from prefix_no_overlap [OF once _ this] have "prefix sep (c # cs)"
      by simp
    with np show False ..
  qed
  then have n: "\<not> prefix sep (c # cs @ sep @ s)"
    by simp
  have "split_first sep (c # cs @ sep @ s) = Some (c # cs, s)"
    by (simp only: split_first.simps n if_False Cons.IH [OF ns] option.case prod.case)
  then show ?case
    by simp
qed

text \<open>The first piece of a split, \<open>s.split(sep)[0]\<close>.\<close>

definition first_piece :: "string \<Rightarrow> string \<Rightarrow> string" where
  "first_piece sep s = (case split_first sep s of None \<Rightarrow> s | Some (a, b) \<Rightarrow> a)"

lemma py_split_first_piece:
  "sep \<noteq> [] \<Longrightarrow> \<exists>pieces. py_split sep s = first_piece sep s # pieces"
  by (subst py_split.simps) (auto simp: first_piece_def split: option.splits)

lemma first_piece_skip:
  "sep = x # xs \<Longrightarrow> x \<notin> set a \<Longrightarrow> first_piece sep (a @ s) = a @ first_piece sep s"
  by (simp add: first_piece_def split_first_skip split: option.splits)

lemma first_piece_at_start: "sep \<noteq> [] \<Longrightarrow> first_piece sep (sep @ s) = []"
  by (simp add: first_piece_def split_first_at_start)

lemma extract_dd_eq:
  "extract_dd html =
     (case split_first ''var dd='' html of
        None \<Rightarrow> None
      | Some (a, b) \<Rightarrow> Some (first_piece ''</script>'' (first_piece ''var dd='' b)))"
proof (cases "split_first ''var dd='' html")
  case None
  then have "py_split ''var dd='' html = [html]"
    by (subst py_split.simps) simp
  with None show ?thesis by (simp add: extract_dd_def)
next
  case (Some ab)
  obtain a b where ab: "ab = (a, b)" by (cases ab)
  obtain pieces where p: "py_split ''var dd='' b = first_piece ''var dd='' b # pieces"
    using py_split_first_piece [of "''var dd=''" b] by auto
  obtain pieces' where p': "py_split ''</script>'' (first_piece ''var dd='' b)
      = first_piece ''</script>'' (first_piece ''var dd='' b) # pieces'"
    using py_split_first_piece [of "''</script>''" "first_piece ''var dd='' b"] by auto
  have "py_split ''var dd='' html = a # first_piece ''var dd='' b # pieces"
    using Some ab p by (subst py_split.simps) simp
  with Some ab p' show ?thesis by (simp add: extract_dd_def)
qed


subsection \<open>Example pages\<close>

text \<open>
  The object of the example as it stands in a page, with single quotes, and the snippet
  that holds it; a page whose object has the \<open>t\<close> of a blocked address.
\<close>

definition dd_quoted :: string where
  \<open>dd_quoted = ''{\'cid\':\'C\',\'hsh\':\'H\',\'t\':\'T\',\'s\':1,\'e\':\'E\'}''\<close>

definition dd_snippet :: string where
  \<open>dd_snippet = ''var dd={\'cid\':\'C\',\'hsh\':\'H\',\'t\':\'T\',\'s\':1,\'e\':\'E\'}</script>''\<close>



subsection \<open>When the parsers fail\<close>



subsection \<open>The slider URL of the example\<close>

lemma dd_snippet_parts: "dd_snippet = ''var dd='' @ dd_quoted @ ''</script>''"
  by (simp add: dd_snippet_def dd_quoted_def)

lemma dd_quoted_to_text: "quotes_to_double dd_quoted = dd_text"
  by (simp add: quotes_to_double_def dd_quoted_def dd_text_def)

lemma extract_dd_snippet:
  assumes "\<not> sublist ''var dd='' pre"
  shows "extract_dd (pre @ dd_snippet @ post) = Some dd_quoted"
proof -
  have sf: "split_first ''var dd='' (pre @ ''var dd='' @ ((dd_quoted @ ''</script>'') @ post))
              = Some (pre, (dd_quoted @ ''</script>'') @ post)"
    by (rule split_first_before [OF _ _ assms]) simp_all
  have fp1: "first_piece ''var dd='' ((dd_quoted @ ''</script>'') @ post)
               = (dd_quoted @ ''</script>'') @ first_piece ''var dd='' post"
    by (rule first_piece_skip [of _ "CHR ''v''" "''ar dd=''"]) (simp_all add: dd_quoted_def)
  have fp2: "first_piece ''</script>'' (dd_quoted @ (''</script>'' @ first_piece ''var dd='' post))
               = dd_quoted @ first_piece ''</script>'' (''</script>'' @ first_piece ''var dd='' post)"
    by (rule first_piece_skip [of _ "CHR ''<''" "''/script>''"]) (simp_all add: dd_quoted_def)
  have fp3: "first_piece ''</script>'' (''</script>'' @ first_piece ''var dd='' post) = []"
    by (rule first_piece_at_start) simp
  have e1: "extract_dd (pre @ ''var dd='' @ ((dd_quoted @ ''</script>'') @ post))
      = Some (first_piece ''</script>''
                (first_piece ''var dd='' ((dd_quoted @ ''</script>'') @ post)))"
    by (simp only: extract_dd_eq sf option.case prod.case)
  have e2: "first_piece ''</script>'' (first_piece ''var dd='' ((dd_quoted @ ''</script>'') @ post))
      = first_piece ''</script>'' (dd_quoted @ (''</script>'' @ first_piece ''var dd='' post))"
    by (subst fp1) (simp only: append_assoc)
  have "extract_dd (pre @ ''var dd='' @ ((dd_quoted @ ''</script>'') @ post)) = Some dd_quoted"
    by (simp only: e1 e2 fp2 fp3 append_Nil2)
  then show ?thesis
    by (simp add: dd_snippet_parts)
qed

lemma urlencode_example:
  "urlencode L [(''initialCid'', JStr ''C''), (''hash'', JStr ''H''), (''cid'', JStr ''D''),
                (''t'', JStr ''T''), (''referer'', JStr ''https://x/''), (''s'', JStr ''1''),
                (''e'', JStr ''E''), (''dm'', JStr ''cd'')]
     = Some ''initialCid=C&hash=H&cid=D&t=T&referer=https%3A%2F%2Fx%2F&s=1&e=E&dm=cd''"
  by (simp add: urlencode_def quote_plus_def quote_char_def hex_digit_def in_range_def)

text \<open>
  Claim C4, as amended. Let the html hold the object of the example between
  \<open>var dd=\<close> and \<open></script>\<close>, with no \<open>var dd=\<close> in the text before it, and let
  \<open>json.loads\<close> read the object's text as JSON says. With the cookie \<open>D\<close> and the
  referer \<open>https://x/\<close> the result is the captcha URL with the keys \<open>initialCid\<close>,
  \<open>hash\<close>, \<open>cid\<close>, \<open>t\<close>, \<open>referer\<close>, \<open>s\<close>, \<open>e\<close>, \<open>dm\<close> in this
  order and the values \<open>C\<close>, \<open>H\<close>, \<open>D\<close>, \<open>T\<close>, the quoted referer, \<open>1\<close>,
  \<open>E\<close> and \<open>cd\<close>.
\<close>

theorem parse_slider_url_example:
  assumes first: "\<not> sublist ''var dd='' pre"
    and loads: "json_loads L dd_text = Some dd_obj"
  shows "parse_slider_url L (pre @ dd_snippet @ post) ''D'' ''https://x/''
           = Returned (Some ''https://geo.captcha-delivery.com/captcha/?initialCid=C&hash=H&cid=D&t=T&referer=https%3A%2F%2Fx%2F&s=1&e=E&dm=cd'')"
proof -
  have s: "py_str L (JInt 1) = ''1''"
    by (simp add: show_int_def digits.simps)
  show ?thesis
    by (simp add: parse_slider_url_def parse_dd_def extract_dd_snippet [OF first]
          dd_quoted_to_text loads dd_obj_def dict_get_def s urlencode_example del: py_str.simps)
qed

theorem parse_slider_url_example_witness:
  "parse_slider_url lib0 (''<html><script>'' @ dd_snippet @ ''</html>'') ''D'' ''https://x/''
     = Returned (Some ''https://geo.captcha-delivery.com/captcha/?initialCid=C&hash=H&cid=D&t=T&referer=https%3A%2F%2Fx%2F&s=1&e=E&dm=cd'')"
proof -
  have a: "\<not> sublist ''var dd='' ''<html><script>''"
    by (simp add: sublist_Cons_right)
  have b: "json_loads lib0 dd_text = Some dd_obj"
    by (simp add: lib0_def)
  from parse_slider_url_example [OF a b]
  show ?thesis .
qed

text \<open>
  The claim as first stated speaks of every html that contains the snippet. In the html
  below the snippet follows an earlier \<open>var dd=\<close>: the text between the first two
  markers is empty, \<open>json.loads\<close> raises on it, and the call raises
  \<open>RuntimeError\<close> instead of returning the URL.
\<close>

theorem parse_slider_url_earlier_marker_raises:
  "sublist dd_snippet (''var dd='' @ dd_snippet)
   \<and> parse_slider_url lib0 (''var dd='' @ dd_snippet) ''D'' ''https://x/''
     = Raised (RuntimeError ''Failed to parse object.'')"
proof -
  have "sublist dd_snippet (''var dd='' @ dd_snippet @ [])"
    by (rule sublist_appendI)
  moreover have "parse_slider_url lib0 (''var dd='' @ dd_snippet) ''D'' ''https://x/''
     = Raised (RuntimeError ''Failed to parse object.'')"
    by code_simp
  ultimately show ?thesis by simp
qed

end
